theory Spec2Isabelle
  imports Main "HOL-Library.Sublist"
begin

section \<open>Python values handed to the modules\<close>

text \<open>
  The functions of \<^verbatim>\<open>salt/modules/crmshmod.py\<close> and
  \<^verbatim>\<open>salt/states/saputilsmod.py\<close> receive untyped Python values and do two
  things with them: test them for truth (\<^verbatim>\<open>if watchdog:\<close>) and render them with
  \<^verbatim>\<open>str.format\<close>; \<^verbatim>\<open>wait_for_startup\<close> also asks whether one is an instance of
  \<^verbatim>\<open>int\<close>. The values a caller passes are \<^verbatim>\<open>None\<close>, booleans, integers and strings,
  or any other object (a float, a list, a dictionary). Of such an object the code
  sees nothing but its truth value and its rendering, so \<open>PObj b s\<close> stands for an
  object that is neither of the four, has the truth value \<open>b\<close> and is rendered as
  \<open>s\<close>: the float \<^verbatim>\<open>0.0\<close> is \<open>PObj False ''0.0''\<close>, the float \<^verbatim>\<open>2.5\<close> is
  \<open>PObj True ''2.5''\<close>, the empty list is \<open>PObj False ''[]''\<close>.
\<close>

datatype pyval = PNone | PBool bool | PInt int | PStr string | PObj bool string

text \<open>Python's truth value testing: \<^verbatim>\<open>None\<close>, \<^verbatim>\<open>False\<close>, \<^verbatim>\<open>0\<close> and
  \<^verbatim>\<open>''\<close> are false, every other boolean, integer and string is true.\<close>

fun truthy :: "pyval \<Rightarrow> bool" where
  "truthy PNone = False"
| "truthy (PBool b) = b"
| "truthy (PInt i) = (i \<noteq> 0)"
| "truthy (PStr s) = (s \<noteq> [])"
| "truthy (PObj b s) = b"

text \<open>\<^verbatim>\<open>isinstance(v, int)\<close>: \<^verbatim>\<open>bool\<close> is a subclass of \<^verbatim>\<open>int\<close> in Python, so
  the test holds of booleans too.\<close>

fun isinstance_int :: "pyval \<Rightarrow> bool" where
  "isinstance_int (PInt i) = True"
| "isinstance_int (PBool b) = True"
| "isinstance_int PNone = False"
| "isinstance_int (PStr s) = False"
| "isinstance_int (PObj b s) = False"

text \<open>Decimal rendering of integers, as \<^verbatim>\<open>str\<close> prints them.\<close>

definition digit_char :: "nat \<Rightarrow> char" where
  "digit_char d = ''0123456789'' ! d"

function string_of_nat :: "nat \<Rightarrow> string" where
  "string_of_nat n =
     (if n < 10 then [digit_char n]
      else string_of_nat (n div 10) @ [digit_char (n mod 10)])"
  by pat_completeness auto
termination
  by (relation "measure id") auto

declare string_of_nat.simps [simp del]

definition string_of_int :: "int \<Rightarrow> string" where
  "string_of_int i =
     (if i < 0 then CHR ''-'' # string_of_nat (nat (- i)) else string_of_nat (nat i))"

text \<open>What \<^verbatim>\<open>'{v}'.format(v=v)\<close> puts in place of the field: \<^verbatim>\<open>str(v)\<close>.\<close>

fun py_str :: "pyval \<Rightarrow> string" where
  "py_str PNone = ''None''"
| "py_str (PBool b) = (if b then ''True'' else ''False'')"
| "py_str (PInt i) = string_of_int i"
| "py_str (PStr s) = s"
| "py_str (PObj b s) = s"

section \<open>The host: command execution, the generation flag, the log\<close>

text \<open>
  Every operation of the cluster module ends in \<^verbatim>\<open>__salt__['cmd.retcode'](cmd)\<close>, and
  \<^verbatim>\<open>cluster_init\<close> and \<^verbatim>\<open>cluster_join\<close> read \<^verbatim>\<open>__salt__['crmsh.version']\<close>,
  the flag \<^verbatim>\<open>__virtual__\<close> stored at load time. The \<^verbatim>\<open>__salt__\<close> dictionary is
  the record \<open>salt\<close>. What a call does to the outside world is returned with its
  value as the list of its events, in the order they happen: the commands it handed
  to \<^verbatim>\<open>cmd.retcode\<close> and the warnings it logged.
\<close>

record salt =
  crmsh_version :: bool
  cmd_retcode :: "string \<Rightarrow> int"

datatype event = Exec string | Warn string | Extract string string pyval pyval

datatype error = SaltInvocationError string | CommandExecutionError string

definition CRM_COMMAND :: string where
  "CRM_COMMAND = ''/usr/sbin/crm''"

definition HA_INIT_COMMAND :: string where
  "HA_INIT_COMMAND = ''/usr/sbin/ha-cluster-init''"

definition HA_JOIN_COMMAND :: string where
  "HA_JOIN_COMMAND = ''/usr/sbin/ha-cluster-join''"

text \<open>\<^verbatim>\<open>return __salt__['cmd.retcode'](cmd)\<close>: the command is executed, its exit code
  is the result.\<close>

definition retcode :: "salt \<Rightarrow> string \<Rightarrow> int \<times> event list" where
  "retcode s cmd = (cmd_retcode s cmd, [Exec cmd])"

text \<open>\<^verbatim>\<open>LOGGER.warn(msg)\<close> before the rest of a call.\<close>

definition warn_then :: "string \<Rightarrow> 'a \<times> event list \<Rightarrow> 'a \<times> event list" where
  "warn_then msg r = (fst r, Warn msg # snd r)"

section \<open>crmshmod.py\<close>

subsection \<open>\<^verbatim>\<open>configure_load\<close>\<close>

text \<open>Lines 422-425: the command \<^verbatim>\<open>configure_load\<close> builds.\<close>

definition configure_load_cmd :: "pyval \<Rightarrow> pyval \<Rightarrow> pyval \<Rightarrow> string" where
  "configure_load_cmd method url is_xml =
     CRM_COMMAND @ '' configure load '' @ (if truthy is_xml then ''xml '' else '''')
       @ py_str method @ '' '' @ py_str url"

definition configure_load :: "salt \<Rightarrow> pyval \<Rightarrow> pyval \<Rightarrow> pyval \<Rightarrow> int \<times> event list" where
  "configure_load s method url is_xml = retcode s (configure_load_cmd method url is_xml)"

subsection \<open>\<^verbatim>\<open>wait_for_startup\<close>\<close>

text \<open>Lines 177-182. The \<^verbatim>\<open>raise\<close> is the result \<open>Inl\<close>; it happens before
  \<^verbatim>\<open>cmd.retcode\<close> is reached, so no event is recorded with it.\<close>

definition wait_for_startup :: "salt \<Rightarrow> pyval \<Rightarrow> (error + int) \<times> event list" where
  "wait_for_startup s timeout =
     (let cmd = CRM_COMMAND @ '' cluster wait_for_startup'' in
      if truthy timeout then
        (if \<not> isinstance_int timeout
         then (Inl (SaltInvocationError ''timeout must be integer type''), [])
         else apfst Inr (retcode s (cmd @ '' '' @ py_str timeout)))
      else apfst Inr (retcode s cmd))"

subsection \<open>\<^verbatim>\<open>cluster_init\<close> and its two builders\<close>

text \<open>Lines 197-212 of \<^verbatim>\<open>_crm_init\<close>: the successive values of \<^verbatim>\<open>cmd\<close>.\<close>

definition crm_init_cmd ::
  "pyval \<Rightarrow> pyval \<Rightarrow> pyval \<Rightarrow> pyval \<Rightarrow> pyval \<Rightarrow> pyval \<Rightarrow> pyval \<Rightarrow> pyval \<Rightarrow> string" where
  "crm_init_cmd name watchdog interface unicast admin_ip sbd sbd_dev quiet =
     (let cmd = CRM_COMMAND @ '' cluster init -y -n '' @ py_str name;
          cmd = (if truthy watchdog then cmd @ '' -w '' @ py_str watchdog else cmd);
          cmd = (if truthy interface then cmd @ '' -i '' @ py_str interface else cmd);
          cmd = (if truthy unicast then cmd @ '' -u'' else cmd);
          cmd = (if truthy admin_ip then cmd @ '' -A '' @ py_str admin_ip else cmd);
          cmd = (if truthy sbd
                 then (let cmd = cmd @ '' --enable-sbd'' in
                       if truthy sbd_dev then cmd @ '' -s '' @ py_str sbd_dev else cmd)
                 else cmd);
          cmd = (if truthy quiet then cmd @ '' -q'' else cmd)
      in cmd)"

text \<open>\<^verbatim>\<open>_crm_init\<close> (an Isabelle name cannot start with an underscore).\<close>

definition crm_init ::
  "salt \<Rightarrow> pyval \<Rightarrow> pyval \<Rightarrow> pyval \<Rightarrow> pyval \<Rightarrow> pyval \<Rightarrow> pyval \<Rightarrow> pyval \<Rightarrow> pyval
     \<Rightarrow> int \<times> event list" where
  "crm_init s name watchdog interface unicast admin_ip sbd sbd_dev quiet =
     retcode s (crm_init_cmd name watchdog interface unicast admin_ip sbd sbd_dev quiet)"

text \<open>Lines 227-240 of \<^verbatim>\<open>_ha_cluster_init\<close>.\<close>

definition ha_cluster_init_cmd ::
  "pyval \<Rightarrow> pyval \<Rightarrow> pyval \<Rightarrow> pyval \<Rightarrow> pyval \<Rightarrow> pyval \<Rightarrow> string" where
  "ha_cluster_init_cmd interface unicast admin_ip sbd sbd_dev quiet =
     (let cmd = HA_INIT_COMMAND @ '' -y'';
          cmd = (if truthy interface then cmd @ '' -i '' @ py_str interface else cmd);
          cmd = (if truthy unicast then cmd @ '' -u'' else cmd);
          cmd = (if truthy admin_ip then cmd @ '' -A '' @ py_str admin_ip else cmd);
          cmd = (if truthy sbd
                 then (let cmd = cmd @ '' -S'' in
                       if truthy sbd_dev then cmd @ '' -s '' @ py_str sbd_dev else cmd)
                 else cmd);
          cmd = (if truthy quiet then cmd @ '' -q'' else cmd)
      in cmd)"

definition ha_cluster_init ::
  "salt \<Rightarrow> pyval \<Rightarrow> pyval \<Rightarrow> pyval \<Rightarrow> pyval \<Rightarrow> pyval \<Rightarrow> pyval \<Rightarrow> int \<times> event list" where
  "ha_cluster_init s interface unicast admin_ip sbd sbd_dev quiet =
     retcode s (ha_cluster_init_cmd interface unicast admin_ip sbd sbd_dev quiet)"

text \<open>Lines 286-291.\<close>

definition cluster_init ::
  "salt \<Rightarrow> pyval \<Rightarrow> pyval \<Rightarrow> pyval \<Rightarrow> pyval \<Rightarrow> pyval \<Rightarrow> pyval \<Rightarrow> pyval \<Rightarrow> pyval
     \<Rightarrow> int \<times> event list" where
  "cluster_init s name watchdog interface unicast admin_ip sbd sbd_dev quiet =
     (if crmsh_version s
      then crm_init s name watchdog interface unicast admin_ip sbd sbd_dev quiet
      else warn_then ''The parameters name and watchdog are not considered!''
             (ha_cluster_init s interface unicast admin_ip sbd sbd_dev quiet))"

subsection \<open>\<^verbatim>\<open>cluster_join\<close> and its two builders\<close>

text \<open>Lines 302-309 of \<^verbatim>\<open>_crm_join\<close>.\<close>

definition crm_join_cmd :: "pyval \<Rightarrow> pyval \<Rightarrow> pyval \<Rightarrow> pyval \<Rightarrow> string" where
  "crm_join_cmd host watchdog interface quiet =
     (let cmd = CRM_COMMAND @ '' cluster join -y -c '' @ py_str host;
          cmd = (if truthy watchdog then cmd @ '' -w '' @ py_str watchdog else cmd);
          cmd = (if truthy interface then cmd @ '' -i '' @ py_str interface else cmd);
          cmd = (if truthy quiet then cmd @ '' -q'' else cmd)
      in cmd)"

definition crm_join :: "salt \<Rightarrow> pyval \<Rightarrow> pyval \<Rightarrow> pyval \<Rightarrow> pyval \<Rightarrow> int \<times> event list" where
  "crm_join s host watchdog interface quiet =
     retcode s (crm_join_cmd host watchdog interface quiet)"

text \<open>Lines 321-326 of \<^verbatim>\<open>_ha_cluster_join\<close>.\<close>

definition ha_cluster_join_cmd :: "pyval \<Rightarrow> pyval \<Rightarrow> pyval \<Rightarrow> string" where
  "ha_cluster_join_cmd host interface quiet =
     (let cmd = HA_JOIN_COMMAND @ '' -y -c '' @ py_str host;
          cmd = (if truthy interface then cmd @ '' -i '' @ py_str interface else cmd);
          cmd = (if truthy quiet then cmd @ '' -q'' else cmd)
      in cmd)"

definition ha_cluster_join :: "salt \<Rightarrow> pyval \<Rightarrow> pyval \<Rightarrow> pyval \<Rightarrow> int \<times> event list" where
  "ha_cluster_join s host interface quiet =
     retcode s (ha_cluster_join_cmd host interface quiet)"

text \<open>Lines 360-364.\<close>

definition cluster_join :: "salt \<Rightarrow> pyval \<Rightarrow> pyval \<Rightarrow> pyval \<Rightarrow> pyval \<Rightarrow> int \<times> event list" where
  "cluster_join s host watchdog interface quiet =
     (if crmsh_version s
      then crm_join s host watchdog interface quiet
      else warn_then ''The parameter watchdog is not considered!''
             (ha_cluster_join s host interface quiet))"

section \<open>saputilsmod.py\<close>

text \<open>
  \<^verbatim>\<open>os.path.dirname\<close> on the POSIX hosts the module runs on: the text up to and
  including the last slash, with the trailing slashes stripped unless it consists of
  slashes only.
\<close>

definition os_path_dirname :: "string \<Rightarrow> string" where
  "os_path_dirname p =
     (let head = rev (dropWhile (\<lambda>c. c \<noteq> CHR ''/'') (rev p)) in
      if head \<noteq> [] \<and> head \<noteq> replicate (length head) CHR ''/''
      then rev (dropWhile (\<lambda>c. c = CHR ''/'') (rev head))
      else head)"

text \<open>
  The state module reads \<^verbatim>\<open>__opts__['test']\<close> and calls the delegate
  \<^verbatim>\<open>__salt__['saputils.extract_sapcar_file']\<close>, which returns normally (\<open>None\<close>) or
  raises. A call of the delegate is the event \<open>Extract\<close> with the four arguments
  passed to it.
\<close>

record state_host =
  opts_test :: bool
  extract_sapcar_file :: "string \<Rightarrow> string \<Rightarrow> pyval \<Rightarrow> pyval \<Rightarrow> error option"

text \<open>The dictionary \<^verbatim>\<open>ret\<close>; \<^verbatim>\<open>result\<close> is \<^verbatim>\<open>True\<close>, \<^verbatim>\<open>False\<close> or
  \<^verbatim>\<open>None\<close> (here \<open>None\<close>).\<close>

record ret =
  ret_name :: string
  ret_changes :: "string \<rightharpoonup> pyval"
  ret_result :: "bool option"
  ret_comment :: string

text \<open>Lines 74-102. \<^verbatim>\<open>except CommandExecutionError\<close> catches that class only: any
  other exception of the delegate leaves the function (\<open>Inl\<close>).\<close>

definition sar_file_extracted ::
  "state_host \<Rightarrow> pyval \<Rightarrow> string \<Rightarrow> string \<Rightarrow> pyval \<Rightarrow> pyval \<Rightarrow> (error + ret) \<times> event list" where
  "sar_file_extracted h name sapcar_exe sar_file output_dir options =
     (let ret = \<lparr>ret_name = sar_file, ret_changes = Map.empty,
                 ret_result = Some False, ret_comment = []\<rparr> in
      if opts_test h then
        (Inr (ret\<lparr>ret_result := None,
                  ret_comment := sar_file @ '' would be extracted'',
                  ret_changes := (ret_changes ret)(''output_dir'' \<mapsto> output_dir)\<rparr>), [])
      else
        (case extract_sapcar_file h sapcar_exe sar_file output_dir options of
           None \<Rightarrow>
             (let ret = (if truthy output_dir
                         then ret\<lparr>ret_changes := (ret_changes ret)(''output_dir'' \<mapsto> output_dir)\<rparr>
                         else ret\<lparr>ret_changes :=
                                (ret_changes ret)(''output_dir'' \<mapsto> PStr (os_path_dirname sar_file))\<rparr>)
              in Inr (ret\<lparr>ret_comment := sar_file @ '' file extracted'',
                           ret_result := Some True\<rparr>))
         | Some (CommandExecutionError err) \<Rightarrow> Inr (ret\<lparr>ret_comment := err\<rparr>)
         | Some e \<Rightarrow> Inl e,
         [Extract sapcar_exe sar_file output_dir options]))"

section \<open>Vocabulary of the properties\<close>

text \<open>
  The commands are plain strings handed to a shell. The \<open>tokens\<close> of a command are
  its maximal runs of characters other than the space; its \<open>executable\<close> is the
  text before the first space, the binary the shell starts.
\<close>

fun tokens_from :: "string \<Rightarrow> string \<Rightarrow> string list" where
  "tokens_from acc [] = (if acc = [] then [] else [rev acc])"
| "tokens_from acc (c # cs) =
     (if c = CHR '' ''
      then (if acc = [] then [] else [rev acc]) @ tokens_from [] cs
      else tokens_from (c # acc) cs)"

definition tokens :: "string \<Rightarrow> string list" where
  "tokens cmd = tokens_from [] cmd"

definition executable :: "string \<Rightarrow> string" where
  "executable cmd = takeWhile (\<lambda>c. c \<noteq> CHR '' '') cmd"

text \<open>The commands and the warnings among the events of a call.\<close>

fun executed :: "event list \<Rightarrow> string list" where
  "executed [] = []"
| "executed (Exec cmd # es) = cmd # executed es"
| "executed (e # es) = executed es"

fun warnings :: "event list \<Rightarrow> string list" where
  "warnings [] = []"
| "warnings (Warn msg # es) = msg # warnings es"
| "warnings (e # es) = warnings es"

text \<open>
  The spec describes the commands of the builders as a base followed by optional
  segments in a fixed order. \<open>opt_arg\<close> is the segment of a flag that carries a value,
  \<open>opt_flag\<close> the segment of a flag without a value, \<open>sbd_segment\<close> the sbd flag
  followed by the \<^verbatim>\<open>-s\<close> segment of its device; each is empty when its argument is
  falsy. \<open>arg_tokens\<close>, \<open>flag_tokens\<close> and \<open>sbd_tokens\<close> are the tokens these
  segments contribute.
\<close>

definition opt_arg :: "string \<Rightarrow> pyval \<Rightarrow> string" where
  "opt_arg flag v = (if truthy v then '' '' @ flag @ '' '' @ py_str v else [])"

definition opt_flag :: "string \<Rightarrow> pyval \<Rightarrow> string" where
  "opt_flag flag v = (if truthy v then '' '' @ flag else [])"

definition sbd_segment :: "string \<Rightarrow> pyval \<Rightarrow> pyval \<Rightarrow> string" where
  "sbd_segment flag sbd sbd_dev =
     (if truthy sbd then '' '' @ flag @ opt_arg ''-s'' sbd_dev else [])"

definition arg_tokens :: "string \<Rightarrow> pyval \<Rightarrow> string list" where
  "arg_tokens flag v = (if truthy v then flag # tokens (py_str v) else [])"

definition flag_tokens :: "string \<Rightarrow> pyval \<Rightarrow> string list" where
  "flag_tokens flag v = (if truthy v then [flag] else [])"

definition sbd_tokens :: "string \<Rightarrow> pyval \<Rightarrow> pyval \<Rightarrow> string list" where
  "sbd_tokens flag sbd sbd_dev = (if truthy sbd then flag # arg_tokens ''-s'' sbd_dev else [])"

text \<open>A text that is empty or starts with a space: appending it to a command adds
  its tokens and changes none.\<close>

definition spaced :: "string \<Rightarrow> bool" where
  "spaced ys = (case ys of [] \<Rightarrow> True | c # cs \<Rightarrow> c = CHR '' '')"

text \<open>Two hosts for the examples: one with the new crmsh, one with the legacy tools;
  every command exits with 0 on both.\<close>

definition crm_host :: salt where
  "crm_host = \<lparr>crmsh_version = True, cmd_retcode = (\<lambda>cmd. 0)\<rparr>"

definition ha_cluster_host :: salt where
  "ha_cluster_host = \<lparr>crmsh_version = False, cmd_retcode = (\<lambda>cmd. 0)\<rparr>"

text \<open>Three hosts of the state module for the examples: in test mode (its delegate
  would fail if it were called), with a delegate that succeeds, and with a delegate
  that raises \<^verbatim>\<open>CommandExecutionError\<close>.\<close>

definition test_host :: state_host where
  "test_host = \<lparr>opts_test = True,
     extract_sapcar_file = (\<lambda>sapcar_exe sar_file output_dir options.
       Some (CommandExecutionError ''SAPCAR was run''))\<rparr>"

definition extracting_host :: state_host where
  "extracting_host = \<lparr>opts_test = False,
     extract_sapcar_file = (\<lambda>sapcar_exe sar_file output_dir options. None)\<rparr>"

definition failing_host :: state_host where
  "failing_host = \<lparr>opts_test = False,
     extract_sapcar_file = (\<lambda>sapcar_exe sar_file output_dir options.
       Some (CommandExecutionError ''Error running SAPCAR command''))\<rparr>"

section \<open>Tokens of the commands\<close>

lemma crm_join_cmd_segments:
  "crm_join_cmd host watchdog interface quiet =
     CRM_COMMAND @ '' cluster join -y -c '' @ py_str host
       @ opt_arg ''-w'' watchdog @ opt_arg ''-i'' interface @ opt_flag ''-q'' quiet"
  by (simp add: crm_join_cmd_def opt_arg_def opt_flag_def Let_def)

lemma ha_cluster_join_cmd_segments:
  "ha_cluster_join_cmd host interface quiet =
     HA_JOIN_COMMAND @ '' -y -c '' @ py_str host
       @ opt_arg ''-i'' interface @ opt_flag ''-q'' quiet"
  by (simp add: ha_cluster_join_cmd_def opt_arg_def opt_flag_def Let_def)

lemma tokens_from_append_space:
  "tokens_from acc (xs @ CHR '' '' # ys) = tokens_from acc xs @ tokens_from [] ys"
  by (induction xs arbitrary: acc) auto

lemma tokens_append_space: "tokens (xs @ CHR '' '' # ys) = tokens xs @ tokens ys"
  by (simp add: tokens_def tokens_from_append_space)

lemma tokens_Nil: "tokens [] = []"
  by (simp add: tokens_def)

lemma tokens_space: "tokens (CHR '' '' # ys) = tokens ys"
  by (simp add: tokens_def)

lemma tokens_append_spaced: "spaced ys \<Longrightarrow> tokens (xs @ ys) = tokens xs @ tokens ys"
  by (cases ys) (simp_all add: spaced_def tokens_Nil tokens_append_space tokens_space)

lemma spaced_simps:
  "spaced []" "spaced (CHR '' '' # xs)"
  "spaced ys \<Longrightarrow> spaced (opt_arg flag v @ ys)"
  "spaced ys \<Longrightarrow> spaced (opt_flag flag v @ ys)"
  "spaced ys \<Longrightarrow> spaced (sbd_segment flag sbd sbd_dev @ ys)"
  by (simp_all add: spaced_def opt_arg_def opt_flag_def sbd_segment_def)

lemma tokens_opt_arg_gen:
  assumes "spaced ys"
  shows "tokens (opt_arg flag v @ ys) =
    (if truthy v then tokens flag @ tokens (py_str v) else []) @ tokens ys"
proof (cases "truthy v")
  case True
  have "tokens (opt_arg flag v @ ys) = tokens (CHR '' '' # (flag @ CHR '' '' # (py_str v @ ys)))"
    using True by (simp add: opt_arg_def)
  also have "\<dots> = tokens flag @ tokens (py_str v @ ys)"
    by (simp only: tokens_space tokens_append_space)
  also have "\<dots> = tokens flag @ tokens (py_str v) @ tokens ys"
    using assms by (simp only: tokens_append_spaced)
  finally show ?thesis using True by simp
next
  case False
  then show ?thesis by (simp add: opt_arg_def)
qed

lemma tokens_opt_flag_gen:
  assumes "spaced ys"
  shows "tokens (opt_flag flag v @ ys) = (if truthy v then tokens flag else []) @ tokens ys"
proof (cases "truthy v")
  case True
  have "tokens (opt_flag flag v @ ys) = tokens (CHR '' '' # (flag @ ys))"
    using True by (simp add: opt_flag_def)
  also have "\<dots> = tokens flag @ tokens ys"
    using assms by (simp only: tokens_space tokens_append_spaced)
  finally show ?thesis using True by simp
next
  case False
  then show ?thesis by (simp add: opt_flag_def)
qed

lemma tokens_flag:
  "tokens ''-w'' = [''-w'']" "tokens ''-i'' = [''-i'']" "tokens ''-u'' = [''-u'']"
  "tokens ''-A'' = [''-A'']" "tokens ''-s'' = [''-s'']" "tokens ''-q'' = [''-q'']"
  "tokens ''-S'' = [''-S'']" "tokens ''--enable-sbd'' = [''--enable-sbd'']"
  by (simp_all add: tokens_def)

lemma tokens_opt_arg:
  "spaced ys \<Longrightarrow> flag \<in> {''-w'', ''-i'', ''-A'', ''-s''} \<Longrightarrow>
     tokens (opt_arg flag v @ ys) = arg_tokens flag v @ tokens ys"
  by (auto simp add: tokens_opt_arg_gen arg_tokens_def tokens_flag)

lemma tokens_opt_flag:
  "spaced ys \<Longrightarrow> flag \<in> {''-u'', ''-q''} \<Longrightarrow>
     tokens (opt_flag flag v @ ys) = flag_tokens flag v @ tokens ys"
  by (auto simp add: tokens_opt_flag_gen flag_tokens_def tokens_flag)

lemma tokens_sbd_segment:
  assumes "spaced ys" and "flag \<in> {''-S'', ''--enable-sbd''}"
  shows "tokens (sbd_segment flag sbd sbd_dev @ ys) = sbd_tokens flag sbd sbd_dev @ tokens ys"
proof (cases "truthy sbd")
  case True
  have "tokens (sbd_segment flag sbd sbd_dev @ ys) =
          tokens (CHR '' '' # (flag @ (opt_arg ''-s'' sbd_dev @ ys)))"
    using True by (simp add: sbd_segment_def)
  also have "\<dots> = tokens flag @ tokens (opt_arg ''-s'' sbd_dev @ ys)"
    using assms(1) by (simp only: tokens_space tokens_append_spaced spaced_simps)
  also have "\<dots> = flag # arg_tokens ''-s'' sbd_dev @ tokens ys"
    using assms by (auto simp add: tokens_opt_arg tokens_flag)
  finally show ?thesis using True by (simp add: sbd_tokens_def)
next
  case False
  then show ?thesis by (simp add: sbd_segment_def sbd_tokens_def)
qed

lemma crm_init_cmd_segments:
  "crm_init_cmd name watchdog interface unicast admin_ip sbd sbd_dev quiet =
     CRM_COMMAND @ '' cluster init -y -n '' @ py_str name
       @ opt_arg ''-w'' watchdog @ opt_arg ''-i'' interface @ opt_flag ''-u'' unicast
       @ opt_arg ''-A'' admin_ip @ sbd_segment ''--enable-sbd'' sbd sbd_dev
       @ opt_flag ''-q'' quiet"
  by (simp add: crm_init_cmd_def opt_arg_def opt_flag_def sbd_segment_def Let_def)

lemma tokens_crm_init_base:
  assumes "spaced ys"
  shows "tokens (CRM_COMMAND @ '' cluster init -y -n '' @ py_str name @ ys) =
     [''/usr/sbin/crm'', ''cluster'', ''init'', ''-y'', ''-n''] @ tokens (py_str name) @ tokens ys"
proof -
  have "tokens (CRM_COMMAND @ '' cluster init -y -n '' @ py_str name @ ys) =
        tokens (''/usr/sbin/crm cluster init -y -n'' @ CHR '' '' # (py_str name @ ys))"
    by (simp add: CRM_COMMAND_def)
  also have "\<dots> = tokens ''/usr/sbin/crm cluster init -y -n'' @ tokens (py_str name @ ys)"
    by (simp only: tokens_append_space)
  also have "\<dots> = tokens ''/usr/sbin/crm cluster init -y -n'' @ tokens (py_str name) @ tokens ys"
    using assms by (simp only: tokens_append_spaced)
  finally show ?thesis by (simp add: tokens_def)
qed

lemma tokens_crm_init_cmd:
  "tokens (crm_init_cmd name watchdog interface unicast admin_ip sbd sbd_dev quiet) =
     [''/usr/sbin/crm'', ''cluster'', ''init'', ''-y'', ''-n''] @ tokens (py_str name)
       @ arg_tokens ''-w'' watchdog @ arg_tokens ''-i'' interface @ flag_tokens ''-u'' unicast
       @ arg_tokens ''-A'' admin_ip @ sbd_tokens ''--enable-sbd'' sbd sbd_dev
       @ flag_tokens ''-q'' quiet"
proof -
  have "tokens (crm_init_cmd name watchdog interface unicast admin_ip sbd sbd_dev quiet) =
     tokens (CRM_COMMAND @ '' cluster init -y -n '' @ py_str name
       @ opt_arg ''-w'' watchdog @ opt_arg ''-i'' interface @ opt_flag ''-u'' unicast
       @ opt_arg ''-A'' admin_ip @ sbd_segment ''--enable-sbd'' sbd sbd_dev
       @ opt_flag ''-q'' quiet @ [])"
    by (simp add: crm_init_cmd_segments)
  also have "\<dots> = [''/usr/sbin/crm'', ''cluster'', ''init'', ''-y'', ''-n''] @ tokens (py_str name)
       @ arg_tokens ''-w'' watchdog @ arg_tokens ''-i'' interface @ flag_tokens ''-u'' unicast
       @ arg_tokens ''-A'' admin_ip @ sbd_tokens ''--enable-sbd'' sbd sbd_dev
       @ flag_tokens ''-q'' quiet @ tokens []"
    by (simp only: tokens_crm_init_base tokens_opt_arg tokens_opt_flag tokens_sbd_segment
        spaced_simps insert_iff simp_thms)
  finally show ?thesis by (simp add: tokens_Nil)
qed

lemma ha_cluster_init_cmd_segments:
  "ha_cluster_init_cmd interface unicast admin_ip sbd sbd_dev quiet =
     HA_INIT_COMMAND @ '' -y''
       @ opt_arg ''-i'' interface @ opt_flag ''-u'' unicast
       @ opt_arg ''-A'' admin_ip @ sbd_segment ''-S'' sbd sbd_dev
       @ opt_flag ''-q'' quiet"
  by (simp add: ha_cluster_init_cmd_def opt_arg_def opt_flag_def sbd_segment_def Let_def)

lemma tokens_base_value:
  "spaced ys \<Longrightarrow>
     tokens (base @ CHR '' '' # (py_str v @ ys)) = tokens base @ tokens (py_str v) @ tokens ys"
  by (simp only: tokens_append_space tokens_append_spaced)

lemma tokens_ha_cluster_init_cmd:
  "tokens (ha_cluster_init_cmd interface unicast admin_ip sbd sbd_dev quiet) =
     [''/usr/sbin/ha-cluster-init'', ''-y'']
       @ arg_tokens ''-i'' interface @ flag_tokens ''-u'' unicast
       @ arg_tokens ''-A'' admin_ip @ sbd_tokens ''-S'' sbd sbd_dev
       @ flag_tokens ''-q'' quiet"
proof -
  let ?rest = "opt_arg ''-i'' interface @ opt_flag ''-u'' unicast
       @ opt_arg ''-A'' admin_ip @ sbd_segment ''-S'' sbd sbd_dev
       @ opt_flag ''-q'' quiet @ []"
  have "tokens (ha_cluster_init_cmd interface unicast admin_ip sbd sbd_dev quiet) =
     tokens (''/usr/sbin/ha-cluster-init -y'' @ ?rest)"
    by (simp add: ha_cluster_init_cmd_segments HA_INIT_COMMAND_def)
  also have "\<dots> = tokens ''/usr/sbin/ha-cluster-init -y'' @ tokens ?rest"
    by (rule tokens_append_spaced) (simp only: spaced_simps)
  also have "\<dots> = tokens ''/usr/sbin/ha-cluster-init -y''
       @ arg_tokens ''-i'' interface @ flag_tokens ''-u'' unicast
       @ arg_tokens ''-A'' admin_ip @ sbd_tokens ''-S'' sbd sbd_dev
       @ flag_tokens ''-q'' quiet @ tokens []"
    by (simp only: tokens_opt_arg tokens_opt_flag tokens_sbd_segment
        spaced_simps insert_iff simp_thms)
  finally show ?thesis by (simp add: tokens_Nil tokens_def)
qed

lemma tokens_crm_join_cmd:
  "tokens (crm_join_cmd host watchdog interface quiet) =
     [''/usr/sbin/crm'', ''cluster'', ''join'', ''-y'', ''-c''] @ tokens (py_str host)
       @ arg_tokens ''-w'' watchdog @ arg_tokens ''-i'' interface @ flag_tokens ''-q'' quiet"
proof -
  have "tokens (crm_join_cmd host watchdog interface quiet) =
     tokens (''/usr/sbin/crm cluster join -y -c'' @ CHR '' '' # (py_str host
       @ opt_arg ''-w'' watchdog @ opt_arg ''-i'' interface @ opt_flag ''-q'' quiet @ []))"
    by (simp add: crm_join_cmd_segments CRM_COMMAND_def)
  also have "\<dots> = tokens ''/usr/sbin/crm cluster join -y -c'' @ tokens (py_str host)
       @ arg_tokens ''-w'' watchdog @ arg_tokens ''-i'' interface @ flag_tokens ''-q'' quiet
       @ tokens []"
    by (simp only: tokens_base_value tokens_opt_arg tokens_opt_flag
        spaced_simps insert_iff simp_thms)
  finally show ?thesis by (simp add: tokens_Nil tokens_def)
qed

lemma tokens_ha_cluster_join_cmd:
  "tokens (ha_cluster_join_cmd host interface quiet) =
     [''/usr/sbin/ha-cluster-join'', ''-y'', ''-c''] @ tokens (py_str host)
       @ arg_tokens ''-i'' interface @ flag_tokens ''-q'' quiet"
proof -
  have "tokens (ha_cluster_join_cmd host interface quiet) =
     tokens (''/usr/sbin/ha-cluster-join -y -c'' @ CHR '' '' # (py_str host
       @ opt_arg ''-i'' interface @ opt_flag ''-q'' quiet @ []))"
    by (simp add: ha_cluster_join_cmd_segments HA_JOIN_COMMAND_def)
  also have "\<dots> = tokens ''/usr/sbin/ha-cluster-join -y -c'' @ tokens (py_str host)
       @ arg_tokens ''-i'' interface @ flag_tokens ''-q'' quiet @ tokens []"
    by (simp only: tokens_base_value tokens_opt_arg tokens_opt_flag
        spaced_simps insert_iff simp_thms)
  finally show ?thesis by (simp add: tokens_Nil tokens_def)
qed

lemma tokens_configure_load_cmd:
  "tokens (configure_load_cmd method url is_xml) =
     [''/usr/sbin/crm'', ''configure'', ''load''] @ (if truthy is_xml then [''xml''] else [])
       @ tokens (py_str method) @ tokens (py_str url)"
proof (cases "truthy is_xml")
  case True
  have "tokens (configure_load_cmd method url is_xml) =
     tokens (''/usr/sbin/crm configure load xml'' @ CHR '' '' # (py_str method @ CHR '' '' # py_str url))"
    using True by (simp add: configure_load_cmd_def CRM_COMMAND_def)
  also have "\<dots> = tokens ''/usr/sbin/crm configure load xml'' @ tokens (py_str method) @ tokens (py_str url)"
    by (simp only: tokens_append_space)
  finally show ?thesis using True by (simp add: tokens_def)
next
  case False
  have "tokens (configure_load_cmd method url is_xml) =
     tokens (''/usr/sbin/crm configure load'' @ CHR '' '' # (py_str method @ CHR '' '' # py_str url))"
    using False by (simp add: configure_load_cmd_def CRM_COMMAND_def)
  also have "\<dots> = tokens ''/usr/sbin/crm configure load'' @ tokens (py_str method) @ tokens (py_str url)"
    by (simp only: tokens_append_space)
  finally show ?thesis using False by (simp add: tokens_def)
qed

lemma executable_crm:
  "executable (CRM_COMMAND @ CHR '' '' # rest) = CRM_COMMAND"
  by (simp add: executable_def CRM_COMMAND_def)

lemma executable_ha_init:
  "executable (HA_INIT_COMMAND @ CHR '' '' # rest) = HA_INIT_COMMAND"
  by (simp add: executable_def HA_INIT_COMMAND_def)

lemma executable_ha_join:
  "executable (HA_JOIN_COMMAND @ CHR '' '' # rest) = HA_JOIN_COMMAND"
  by (simp add: executable_def HA_JOIN_COMMAND_def)

section \<open>The binary a command starts\<close>

lemma executable_crm_init_cmd:
  "executable (crm_init_cmd name watchdog interface unicast admin_ip sbd sbd_dev quiet) = CRM_COMMAND"
  using executable_crm by (simp add: crm_init_cmd_segments)

lemma executable_ha_cluster_init_cmd:
  "executable (ha_cluster_init_cmd interface unicast admin_ip sbd sbd_dev quiet) = HA_INIT_COMMAND"
  using executable_ha_init by (simp add: ha_cluster_init_cmd_segments)

lemma executable_crm_join_cmd:
  "executable (crm_join_cmd host watchdog interface quiet) = CRM_COMMAND"
  using executable_crm by (simp add: crm_join_cmd_segments)

lemma executable_ha_cluster_join_cmd:
  "executable (ha_cluster_join_cmd host interface quiet) = HA_JOIN_COMMAND"
  using executable_ha_join by (simp add: ha_cluster_join_cmd_segments)

lemma binaries_distinct:
  "CRM_COMMAND \<noteq> HA_INIT_COMMAND" "CRM_COMMAND \<noteq> HA_JOIN_COMMAND"
  "HA_INIT_COMMAND \<noteq> HA_JOIN_COMMAND"
  by (simp_all add: CRM_COMMAND_def HA_INIT_COMMAND_def HA_JOIN_COMMAND_def)

lemma sublist_crm_init_cmd:
  "sublist (''cluster init -y -n '' @ py_str name)
     (crm_init_cmd name watchdog interface unicast admin_ip sbd sbd_dev quiet)"
  unfolding crm_init_cmd_segments sublist_def
  by (rule exI [of _ "CRM_COMMAND @ '' ''"]) simp

lemma prefix_crm_init_cmd:
  "prefix (CRM_COMMAND @ '' cluster init -y -n '' @ py_str name)
     (crm_init_cmd name watchdog interface unicast admin_ip sbd sbd_dev quiet)"
  unfolding crm_init_cmd_segments prefix_def by simp

lemma ha_init_not_in_crm_base:
  "\<not> sublist HA_INIT_COMMAND (py_str name) \<Longrightarrow>
     \<not> sublist HA_INIT_COMMAND (CRM_COMMAND @ '' cluster init -y -n '' @ py_str name)"
  by (simp add: CRM_COMMAND_def HA_INIT_COMMAND_def sublist_Cons_right)

lemma prefix_crm_join_cmd:
  "truthy watchdog \<Longrightarrow>
     prefix (CRM_COMMAND @ '' cluster join -y -c '' @ py_str host @ '' -w '' @ py_str watchdog)
       (crm_join_cmd host watchdog interface quiet)"
  unfolding crm_join_cmd_segments prefix_def by (simp add: opt_arg_def)

section \<open>The parent directory\<close>

text \<open>\<^verbatim>\<open>os.path.dirname\<close> of a file name in a directory is the directory.\<close>

lemma os_path_dirname_join:
  assumes "dir \<noteq> []" and "last dir \<noteq> CHR ''/''" and "CHR ''/'' \<notin> set file"
  shows "os_path_dirname (dir @ ''/'' @ file) = dir"
proof -
  have head: "rev (dropWhile (\<lambda>c. c \<noteq> CHR ''/'') (rev (dir @ ''/'' @ file))) = dir @ ''/''"
    using assms(3) by (simp add: dropWhile_append)
  have notslashes: "dir @ ''/'' \<noteq> replicate (length (dir @ ''/'')) CHR ''/''"
  proof
    assume "dir @ ''/'' = replicate (length (dir @ ''/'')) CHR ''/''"
    then have "set (dir @ ''/'') \<subseteq> {CHR ''/''}"
      by (metis set_replicate_conv_if empty_subsetI subset_refl)
    moreover have "last dir \<in> set dir" using assms(1) by simp
    ultimately show False using assms(2) by auto
  qed
  have strip: "rev (dropWhile (\<lambda>c. c = CHR ''/'') (rev (dir @ ''/''))) = dir"
  proof -
    obtain c cs where rd: "rev dir = c # cs" using assms(1) by (cases "rev dir") auto
    then have "c = last dir" by (metis assms(1) last_rev list.sel(1) rev_rev_ident hd_rev)
    then have "c \<noteq> CHR ''/''" using assms(2) by simp
    then have "dropWhile (\<lambda>c. c = CHR ''/'') (rev (dir @ ''/'')) = rev dir"
      using rd by simp
    then show ?thesis by simp
  qed
  show ?thesis
    unfolding os_path_dirname_def Let_def head using notslashes strip by simp
qed

section \<open>The claims\<close>

subsection \<open>\<^verbatim>\<open>configure_load\<close>\<close>

text \<open>
  C6. For every method, url and is_xml, \<^verbatim>\<open>configure_load\<close> executes the command
  \<^verbatim>\<open>configure load xml <method> <url>\<close> on the crm binary when is_xml is truthy, and
  \<^verbatim>\<open>configure load <method> <url>\<close> otherwise; the token \<^verbatim>\<open>xml\<close> stands between
  \<^verbatim>\<open>load\<close> and the method exactly when is_xml is truthy, separated by one
  space, and method and url are rendered as they are.
\<close>

theorem configure_load_command:
  "(truthy is_xml \<longrightarrow>
      configure_load s method url is_xml =
        retcode s (CRM_COMMAND @ '' configure load xml '' @ py_str method @ '' '' @ py_str url))
   \<and> (\<not> truthy is_xml \<longrightarrow>
      configure_load s method url is_xml =
        retcode s (CRM_COMMAND @ '' configure load '' @ py_str method @ '' '' @ py_str url))
   \<and> tokens (configure_load_cmd method url is_xml) =
       [''/usr/sbin/crm'', ''configure'', ''load''] @ (if truthy is_xml then [''xml''] else [])
         @ tokens (py_str method) @ tokens (py_str url)"
proof (intro conjI impI)
  assume "truthy is_xml"
  then show "configure_load s method url is_xml =
        retcode s (CRM_COMMAND @ '' configure load xml '' @ py_str method @ '' '' @ py_str url)"
    by (simp add: configure_load_def configure_load_cmd_def)
next
  assume "\<not> truthy is_xml"
  then show "configure_load s method url is_xml =
        retcode s (CRM_COMMAND @ '' configure load '' @ py_str method @ '' '' @ py_str url)"
    by (simp add: configure_load_def configure_load_cmd_def)
next
  show "tokens (configure_load_cmd method url is_xml) =
       [''/usr/sbin/crm'', ''configure'', ''load''] @ (if truthy is_xml then [''xml''] else [])
         @ tokens (py_str method) @ tokens (py_str url)"
    by (rule tokens_configure_load_cmd)
qed

text \<open>The call of the docstring, with and without \<^verbatim>\<open>is_xml\<close>.\<close>

theorem configure_load_command_witness:
  "configure_load crm_host (PStr ''update'') (PStr ''file.conf'') (PBool True) =
     (0, [Exec ''/usr/sbin/crm configure load xml update file.conf''])
   \<and> configure_load crm_host (PStr ''update'') (PStr ''file.conf'') (PBool False) =
     (0, [Exec ''/usr/sbin/crm configure load update file.conf''])
   \<and> configure_load crm_host (PStr ''update'') (PStr ''file.conf'') PNone =
     (0, [Exec ''/usr/sbin/crm configure load update file.conf''])
   \<and> tokens (configure_load_cmd (PStr ''update'') (PStr ''file.conf'') (PBool True)) =
     [''/usr/sbin/crm'', ''configure'', ''load'', ''xml'', ''update'', ''file.conf'']"
  using configure_load_command [of "PBool True" crm_host "PStr ''update''" "PStr ''file.conf''"]
    configure_load_command [of "PBool False" crm_host "PStr ''update''" "PStr ''file.conf''"]
    configure_load_command [of PNone crm_host "PStr ''update''" "PStr ''file.conf''"]
  by (simp add: retcode_def crm_host_def CRM_COMMAND_def tokens_def)

subsection \<open>The new-generation init builder\<close>

text \<open>
  C2. For every combination of the optional arguments, the command \<^verbatim>\<open>_crm_init\<close>
  executes is \<^verbatim>\<open>crm cluster init -y -n <name>\<close> followed by the segments of watchdog
  (\<^verbatim>\<open>-w\<close>), interface (\<^verbatim>\<open>-i\<close>), unicast (\<^verbatim>\<open>-u\<close>, no value), admin_ip (\<^verbatim>\<open>-A\<close>),
  sbd (\<^verbatim>\<open>--enable-sbd\<close>, then \<^verbatim>\<open>-s <sbd_dev>\<close>) and quiet (\<^verbatim>\<open>-q\<close>), in this order,
  each segment empty when its argument is falsy (\<^verbatim>\<open>None\<close> when absent). The second
  conjunct is the same fact on the tokens of the command.
\<close>

theorem crm_init_flag_order:
  "crm_init s name watchdog interface unicast admin_ip sbd sbd_dev quiet =
     retcode s (CRM_COMMAND @ '' cluster init -y -n '' @ py_str name
       @ opt_arg ''-w'' watchdog @ opt_arg ''-i'' interface @ opt_flag ''-u'' unicast
       @ opt_arg ''-A'' admin_ip @ sbd_segment ''--enable-sbd'' sbd sbd_dev
       @ opt_flag ''-q'' quiet)
   \<and> tokens (crm_init_cmd name watchdog interface unicast admin_ip sbd sbd_dev quiet) =
     [''/usr/sbin/crm'', ''cluster'', ''init'', ''-y'', ''-n''] @ tokens (py_str name)
       @ arg_tokens ''-w'' watchdog @ arg_tokens ''-i'' interface @ flag_tokens ''-u'' unicast
       @ arg_tokens ''-A'' admin_ip @ sbd_tokens ''--enable-sbd'' sbd sbd_dev
       @ flag_tokens ''-q'' quiet"
proof
  show "crm_init s name watchdog interface unicast admin_ip sbd sbd_dev quiet =
     retcode s (CRM_COMMAND @ '' cluster init -y -n '' @ py_str name
       @ opt_arg ''-w'' watchdog @ opt_arg ''-i'' interface @ opt_flag ''-u'' unicast
       @ opt_arg ''-A'' admin_ip @ sbd_segment ''--enable-sbd'' sbd sbd_dev
       @ opt_flag ''-q'' quiet)"
    unfolding crm_init_def by (simp only: crm_init_cmd_segments)
next
  show "tokens (crm_init_cmd name watchdog interface unicast admin_ip sbd sbd_dev quiet) =
     [''/usr/sbin/crm'', ''cluster'', ''init'', ''-y'', ''-n''] @ tokens (py_str name)
       @ arg_tokens ''-w'' watchdog @ arg_tokens ''-i'' interface @ flag_tokens ''-u'' unicast
       @ arg_tokens ''-A'' admin_ip @ sbd_tokens ''--enable-sbd'' sbd sbd_dev
       @ flag_tokens ''-q'' quiet"
    by (rule tokens_crm_init_cmd)
qed

text \<open>All arguments set; then watchdog and sbd absent, unicast \<^verbatim>\<open>False\<close>, admin_ip
  the empty string and a device without sbd.\<close>

theorem crm_init_flag_order_witness:
  "crm_init crm_host (PStr ''hacluster'') (PStr ''/dev/watchdog'') (PStr ''eth0'') (PBool True)
       (PStr ''10.0.0.1'') (PBool True) (PStr ''/dev/sdb'') (PBool True) =
     (0, [Exec ''/usr/sbin/crm cluster init -y -n hacluster -w /dev/watchdog -i eth0 -u -A 10.0.0.1 --enable-sbd -s /dev/sdb -q''])
   \<and> tokens (crm_init_cmd (PStr ''hacluster'') (PStr ''/dev/watchdog'') (PStr ''eth0'') (PBool True)
       (PStr ''10.0.0.1'') (PBool True) (PStr ''/dev/sdb'') (PBool True)) =
     [''/usr/sbin/crm'', ''cluster'', ''init'', ''-y'', ''-n'', ''hacluster'', ''-w'',
      ''/dev/watchdog'', ''-i'', ''eth0'', ''-u'', ''-A'', ''10.0.0.1'', ''--enable-sbd'', ''-s'',
      ''/dev/sdb'', ''-q'']
   \<and> crm_init crm_host (PStr ''hacluster'') PNone (PStr ''eth0'') (PBool False)
       (PStr '''') PNone (PStr ''/dev/sdb'') (PInt 1) =
     (0, [Exec ''/usr/sbin/crm cluster init -y -n hacluster -i eth0 -q''])"
  using crm_init_flag_order [of crm_host "PStr ''hacluster''" "PStr ''/dev/watchdog''"
      "PStr ''eth0''" "PBool True" "PStr ''10.0.0.1''" "PBool True" "PStr ''/dev/sdb''" "PBool True"]
    crm_init_flag_order [of crm_host "PStr ''hacluster''" PNone
      "PStr ''eth0''" "PBool False" "PStr ''''" PNone "PStr ''/dev/sdb''" "PInt 1"]
  by (simp add: retcode_def crm_host_def CRM_COMMAND_def opt_arg_def opt_flag_def
      sbd_segment_def arg_tokens_def flag_tokens_def sbd_tokens_def tokens_def)

subsection \<open>The sbd device\<close>

text \<open>
  C3. In both builders, \<^verbatim>\<open>_crm_init\<close> and \<^verbatim>\<open>_ha_cluster_init\<close>, when sbd is falsy the
  value of sbd_dev has no effect on the call, the tokens of the command are those of
  the base and of the other segments only, and a token \<^verbatim>\<open>-s\<close> can be in the command
  only as part of the text the caller gave for another argument.
\<close>

theorem sbd_dev_needs_sbd:
  "\<not> truthy sbd \<Longrightarrow>
     crm_init s name watchdog interface unicast admin_ip sbd sbd_dev quiet =
       crm_init s name watchdog interface unicast admin_ip sbd PNone quiet
   \<and> ha_cluster_init s interface unicast admin_ip sbd sbd_dev quiet =
       ha_cluster_init s interface unicast admin_ip sbd PNone quiet
   \<and> tokens (crm_init_cmd name watchdog interface unicast admin_ip sbd sbd_dev quiet) =
       [''/usr/sbin/crm'', ''cluster'', ''init'', ''-y'', ''-n''] @ tokens (py_str name)
         @ arg_tokens ''-w'' watchdog @ arg_tokens ''-i'' interface @ flag_tokens ''-u'' unicast
         @ arg_tokens ''-A'' admin_ip @ flag_tokens ''-q'' quiet
   \<and> tokens (ha_cluster_init_cmd interface unicast admin_ip sbd sbd_dev quiet) =
       [''/usr/sbin/ha-cluster-init'', ''-y'']
         @ arg_tokens ''-i'' interface @ flag_tokens ''-u'' unicast
         @ arg_tokens ''-A'' admin_ip @ flag_tokens ''-q'' quiet
   \<and> (''-s'' \<in> set (tokens (crm_init_cmd name watchdog interface unicast admin_ip sbd sbd_dev quiet))
        \<longrightarrow> ''-s'' \<in> set (tokens (py_str name)) \<union> set (tokens (py_str watchdog))
              \<union> set (tokens (py_str interface)) \<union> set (tokens (py_str admin_ip)))
   \<and> (''-s'' \<in> set (tokens (ha_cluster_init_cmd interface unicast admin_ip sbd sbd_dev quiet))
        \<longrightarrow> ''-s'' \<in> set (tokens (py_str interface)) \<union> set (tokens (py_str admin_ip)))"
proof (intro conjI)
  assume falsy: "\<not> truthy sbd"
  show "crm_init s name watchdog interface unicast admin_ip sbd sbd_dev quiet =
       crm_init s name watchdog interface unicast admin_ip sbd PNone quiet"
    using falsy by (simp add: crm_init_def crm_init_cmd_segments sbd_segment_def)
  show "ha_cluster_init s interface unicast admin_ip sbd sbd_dev quiet =
       ha_cluster_init s interface unicast admin_ip sbd PNone quiet"
    using falsy by (simp add: ha_cluster_init_def ha_cluster_init_cmd_segments sbd_segment_def)
  show new: "tokens (crm_init_cmd name watchdog interface unicast admin_ip sbd sbd_dev quiet) =
       [''/usr/sbin/crm'', ''cluster'', ''init'', ''-y'', ''-n''] @ tokens (py_str name)
         @ arg_tokens ''-w'' watchdog @ arg_tokens ''-i'' interface @ flag_tokens ''-u'' unicast
         @ arg_tokens ''-A'' admin_ip @ flag_tokens ''-q'' quiet"
    using falsy by (simp add: tokens_crm_init_cmd sbd_tokens_def)
  show legacy: "tokens (ha_cluster_init_cmd interface unicast admin_ip sbd sbd_dev quiet) =
       [''/usr/sbin/ha-cluster-init'', ''-y'']
         @ arg_tokens ''-i'' interface @ flag_tokens ''-u'' unicast
         @ arg_tokens ''-A'' admin_ip @ flag_tokens ''-q'' quiet"
    using falsy by (simp add: tokens_ha_cluster_init_cmd sbd_tokens_def)
  show "''-s'' \<in> set (tokens (crm_init_cmd name watchdog interface unicast admin_ip sbd sbd_dev quiet))
        \<longrightarrow> ''-s'' \<in> set (tokens (py_str name)) \<union> set (tokens (py_str watchdog))
              \<union> set (tokens (py_str interface)) \<union> set (tokens (py_str admin_ip))"
    unfolding new by (auto simp add: arg_tokens_def flag_tokens_def split: if_splits)
  show "''-s'' \<in> set (tokens (ha_cluster_init_cmd interface unicast admin_ip sbd sbd_dev quiet))
        \<longrightarrow> ''-s'' \<in> set (tokens (py_str interface)) \<union> set (tokens (py_str admin_ip))"
    unfolding legacy by (auto simp add: arg_tokens_def flag_tokens_def split: if_splits)
qed

text \<open>A device is given and sbd is not: neither builder emits \<^verbatim>\<open>-s\<close>.\<close>

theorem sbd_dev_needs_sbd_witness:
  "\<not> truthy PNone
   \<and> crm_init crm_host (PStr ''hacluster'') PNone PNone PNone PNone PNone (PStr ''/dev/sdb'') PNone =
       (0, [Exec ''/usr/sbin/crm cluster init -y -n hacluster''])
   \<and> ha_cluster_init ha_cluster_host PNone PNone PNone PNone (PStr ''/dev/sdb'') PNone =
       (0, [Exec ''/usr/sbin/ha-cluster-init -y''])
   \<and> ''-s'' \<notin> set (tokens (crm_init_cmd (PStr ''hacluster'') PNone PNone PNone PNone PNone (PStr ''/dev/sdb'') PNone))
   \<and> ''-s'' \<notin> set (tokens (ha_cluster_init_cmd PNone PNone PNone PNone (PStr ''/dev/sdb'') PNone))"
  using sbd_dev_needs_sbd [of PNone crm_host "PStr ''hacluster''" PNone PNone PNone PNone "PStr ''/dev/sdb''" PNone]
    sbd_dev_needs_sbd [of PNone ha_cluster_host "PStr ''hacluster''" PNone PNone PNone PNone "PStr ''/dev/sdb''" PNone]
  by (simp add: crm_init_def ha_cluster_init_def crm_init_cmd_def ha_cluster_init_cmd_def
      retcode_def crm_host_def ha_cluster_host_def CRM_COMMAND_def HA_INIT_COMMAND_def
      arg_tokens_def flag_tokens_def tokens_def)

subsection \<open>Generation dispatch of \<^verbatim>\<open>cluster_init\<close>\<close>

text \<open>
  C1. With the generation flag true, \<^verbatim>\<open>cluster_init(name)\<close> executes exactly
  \<^verbatim>\<open>/usr/sbin/crm cluster init -y -n <name>\<close> and logs nothing; with any optional
  arguments the command still contains \<^verbatim>\<open>cluster init -y -n <name>\<close> and the binary
  it starts is the crm binary, which is not the legacy one (the path of the legacy
  binary is nowhere in the command unless the caller's name contains it). With the
  flag false, \<^verbatim>\<open>cluster_init(name)\<close> logs the warning and then executes
  \<^verbatim>\<open>/usr/sbin/ha-cluster-init -y\<close>, whatever the name; with any optional arguments
  the command is the one of the legacy builder, which receives neither name nor
  watchdog: it starts the legacy binary and its tokens are \<^verbatim>\<open>-y\<close> and the segments
  of interface, unicast, admin_ip, sbd and quiet, with no \<^verbatim>\<open>-n\<close> and no name.
\<close>

theorem cluster_init_dispatch:
  "(crmsh_version s \<longrightarrow>
      cluster_init s name PNone PNone PNone PNone PNone PNone PNone =
        retcode s (CRM_COMMAND @ '' cluster init -y -n '' @ py_str name)
      \<and> cluster_init s name watchdog interface unicast admin_ip sbd sbd_dev quiet =
        retcode s (crm_init_cmd name watchdog interface unicast admin_ip sbd sbd_dev quiet)
      \<and> warnings (snd (cluster_init s name watchdog interface unicast admin_ip sbd sbd_dev quiet))
          = []
      \<and> prefix (CRM_COMMAND @ '' cluster init -y -n '' @ py_str name)
          (crm_init_cmd name watchdog interface unicast admin_ip sbd sbd_dev quiet)
      \<and> sublist (''cluster init -y -n '' @ py_str name)
          (crm_init_cmd name watchdog interface unicast admin_ip sbd sbd_dev quiet)
      \<and> executable (crm_init_cmd name watchdog interface unicast admin_ip sbd sbd_dev quiet)
          = CRM_COMMAND
      \<and> CRM_COMMAND \<noteq> HA_INIT_COMMAND
      \<and> (\<not> sublist HA_INIT_COMMAND (py_str name) \<longrightarrow>
           \<not> sublist HA_INIT_COMMAND (CRM_COMMAND @ '' cluster init -y -n '' @ py_str name)))
   \<and> (\<not> crmsh_version s \<longrightarrow>
      cluster_init s name PNone PNone PNone PNone PNone PNone PNone =
        (cmd_retcode s ''/usr/sbin/ha-cluster-init -y'',
         [Warn ''The parameters name and watchdog are not considered!'',
          Exec ''/usr/sbin/ha-cluster-init -y''])
      \<and> ''-n'' \<notin> set (tokens ''/usr/sbin/ha-cluster-init -y'')
      \<and> cluster_init s name watchdog interface unicast admin_ip sbd sbd_dev quiet =
        warn_then ''The parameters name and watchdog are not considered!''
          (retcode s (ha_cluster_init_cmd interface unicast admin_ip sbd sbd_dev quiet))
      \<and> warnings (snd (cluster_init s name watchdog interface unicast admin_ip sbd sbd_dev quiet))
          = [''The parameters name and watchdog are not considered!'']
      \<and> executable (ha_cluster_init_cmd interface unicast admin_ip sbd sbd_dev quiet)
          = HA_INIT_COMMAND
      \<and> tokens (ha_cluster_init_cmd interface unicast admin_ip sbd sbd_dev quiet) =
          [''/usr/sbin/ha-cluster-init'', ''-y'']
            @ arg_tokens ''-i'' interface @ flag_tokens ''-u'' unicast
            @ arg_tokens ''-A'' admin_ip @ sbd_tokens ''-S'' sbd sbd_dev
            @ flag_tokens ''-q'' quiet)"
proof (intro conjI impI)
  assume new: "crmsh_version s"
  show "cluster_init s name PNone PNone PNone PNone PNone PNone PNone =
        retcode s (CRM_COMMAND @ '' cluster init -y -n '' @ py_str name)"
    using new by (simp add: cluster_init_def crm_init_def crm_init_cmd_def)
  show "cluster_init s name watchdog interface unicast admin_ip sbd sbd_dev quiet =
        retcode s (crm_init_cmd name watchdog interface unicast admin_ip sbd sbd_dev quiet)"
    using new by (simp add: cluster_init_def crm_init_def)
  show "warnings (snd (cluster_init s name watchdog interface unicast admin_ip sbd sbd_dev quiet))
          = []"
    using new by (simp add: cluster_init_def crm_init_def retcode_def)
  show "prefix (CRM_COMMAND @ '' cluster init -y -n '' @ py_str name)
          (crm_init_cmd name watchdog interface unicast admin_ip sbd sbd_dev quiet)"
    by (rule prefix_crm_init_cmd)
  show "sublist (''cluster init -y -n '' @ py_str name)
          (crm_init_cmd name watchdog interface unicast admin_ip sbd sbd_dev quiet)"
    by (rule sublist_crm_init_cmd)
  show "executable (crm_init_cmd name watchdog interface unicast admin_ip sbd sbd_dev quiet)
          = CRM_COMMAND"
    by (rule executable_crm_init_cmd)
  show "CRM_COMMAND \<noteq> HA_INIT_COMMAND"
    by (rule binaries_distinct)
next
  assume "\<not> sublist HA_INIT_COMMAND (py_str name)"
  then show "\<not> sublist HA_INIT_COMMAND (CRM_COMMAND @ '' cluster init -y -n '' @ py_str name)"
    by (rule ha_init_not_in_crm_base)
next
  assume legacy: "\<not> crmsh_version s"
  show "cluster_init s name PNone PNone PNone PNone PNone PNone PNone =
        (cmd_retcode s ''/usr/sbin/ha-cluster-init -y'',
         [Warn ''The parameters name and watchdog are not considered!'',
          Exec ''/usr/sbin/ha-cluster-init -y''])"
    using legacy
    by (simp add: cluster_init_def ha_cluster_init_def ha_cluster_init_cmd_def HA_INIT_COMMAND_def
        retcode_def warn_then_def)
  show "''-n'' \<notin> set (tokens ''/usr/sbin/ha-cluster-init -y'')"
    by (simp add: tokens_def)
  show "warnings (snd (cluster_init s name watchdog interface unicast admin_ip sbd sbd_dev quiet))
          = [''The parameters name and watchdog are not considered!'']"
    using legacy by (simp add: cluster_init_def ha_cluster_init_def retcode_def warn_then_def)
  show "cluster_init s name watchdog interface unicast admin_ip sbd sbd_dev quiet =
        warn_then ''The parameters name and watchdog are not considered!''
          (retcode s (ha_cluster_init_cmd interface unicast admin_ip sbd sbd_dev quiet))"
    using legacy by (simp add: cluster_init_def ha_cluster_init_def)
  show "executable (ha_cluster_init_cmd interface unicast admin_ip sbd sbd_dev quiet)
          = HA_INIT_COMMAND"
    by (rule executable_ha_cluster_init_cmd)
  show "tokens (ha_cluster_init_cmd interface unicast admin_ip sbd sbd_dev quiet) =
          [''/usr/sbin/ha-cluster-init'', ''-y'']
            @ arg_tokens ''-i'' interface @ flag_tokens ''-u'' unicast
            @ arg_tokens ''-A'' admin_ip @ sbd_tokens ''-S'' sbd sbd_dev
            @ flag_tokens ''-q'' quiet"
    by (rule tokens_ha_cluster_init_cmd)
qed

text \<open>\<^verbatim>\<open>cluster_init("x")\<close> on both generations, and a legacy call that passes a
  watchdog.\<close>

theorem cluster_init_dispatch_witness:
  "cluster_init crm_host (PStr ''x'') PNone PNone PNone PNone PNone PNone PNone =
     (0, [Exec ''/usr/sbin/crm cluster init -y -n x''])
   \<and> cluster_init ha_cluster_host (PStr ''x'') PNone PNone PNone PNone PNone PNone PNone =
     (0, [Warn ''The parameters name and watchdog are not considered!'',
          Exec ''/usr/sbin/ha-cluster-init -y''])
   \<and> cluster_init ha_cluster_host (PStr ''x'') (PStr ''/dev/watchdog'') (PStr ''eth0'') PNone PNone PNone PNone PNone =
     (0, [Warn ''The parameters name and watchdog are not considered!'',
          Exec ''/usr/sbin/ha-cluster-init -y -i eth0''])
   \<and> \<not> sublist HA_INIT_COMMAND ''/usr/sbin/crm cluster init -y -n x''"
  using cluster_init_dispatch [of crm_host "PStr ''x''" PNone PNone PNone PNone PNone PNone PNone]
    cluster_init_dispatch [of ha_cluster_host "PStr ''x''" "PStr ''/dev/watchdog''" "PStr ''eth0''" PNone PNone PNone PNone PNone]
  by (simp add: retcode_def warn_then_def crm_host_def ha_cluster_host_def CRM_COMMAND_def
      HA_INIT_COMMAND_def ha_cluster_init_cmd_def sublist_Cons_right)

subsection \<open>Generation dispatch of \<^verbatim>\<open>cluster_join\<close>\<close>

text \<open>
  C4. With the generation flag false, \<^verbatim>\<open>cluster_join\<close> logs the warning and then
  executes the command of the legacy builder, which does not receive the watchdog: the
  call is the same for every watchdog value, the binary is the legacy
  \<^verbatim>\<open>ha-cluster-join\<close>, and the tokens of the command are \<^verbatim>\<open>-y -c <host>\<close> and the
  segments of interface and quiet. With the flag true the command is the one of
  \<^verbatim>\<open>_crm_join\<close> on the crm binary, and when a watchdog is supplied (a truthy value)
  it continues \<^verbatim>\<open>cluster join -y -c <host>\<close> with \<^verbatim>\<open>-w <watchdog>\<close>.
\<close>

theorem cluster_join_dispatch:
  "(\<not> crmsh_version s \<longrightarrow>
      cluster_join s host watchdog interface quiet =
        warn_then ''The parameter watchdog is not considered!''
          (retcode s (ha_cluster_join_cmd host interface quiet))
      \<and> warnings (snd (cluster_join s host watchdog interface quiet))
          = [''The parameter watchdog is not considered!'']
      \<and> executed (snd (cluster_join s host watchdog interface quiet))
          = [ha_cluster_join_cmd host interface quiet]
      \<and> cluster_join s host watchdog interface quiet = cluster_join s host watchdog' interface quiet
      \<and> executable (ha_cluster_join_cmd host interface quiet) = HA_JOIN_COMMAND
      \<and> tokens (ha_cluster_join_cmd host interface quiet) =
          [''/usr/sbin/ha-cluster-join'', ''-y'', ''-c''] @ tokens (py_str host)
            @ arg_tokens ''-i'' interface @ flag_tokens ''-q'' quiet)
   \<and> (crmsh_version s \<longrightarrow>
      cluster_join s host watchdog interface quiet =
        retcode s (crm_join_cmd host watchdog interface quiet)
      \<and> executable (crm_join_cmd host watchdog interface quiet) = CRM_COMMAND
      \<and> tokens (crm_join_cmd host watchdog interface quiet) =
          [''/usr/sbin/crm'', ''cluster'', ''join'', ''-y'', ''-c''] @ tokens (py_str host)
            @ arg_tokens ''-w'' watchdog @ arg_tokens ''-i'' interface @ flag_tokens ''-q'' quiet
      \<and> (truthy watchdog \<longrightarrow>
           prefix (CRM_COMMAND @ '' cluster join -y -c '' @ py_str host
                     @ '' -w '' @ py_str watchdog)
             (crm_join_cmd host watchdog interface quiet)))"
proof (intro conjI impI)
  assume legacy: "\<not> crmsh_version s"
  show "cluster_join s host watchdog interface quiet =
        warn_then ''The parameter watchdog is not considered!''
          (retcode s (ha_cluster_join_cmd host interface quiet))"
    using legacy by (simp add: cluster_join_def ha_cluster_join_def)
  show "warnings (snd (cluster_join s host watchdog interface quiet))
          = [''The parameter watchdog is not considered!'']"
    using legacy by (simp add: cluster_join_def ha_cluster_join_def retcode_def warn_then_def)
  show "executed (snd (cluster_join s host watchdog interface quiet))
          = [ha_cluster_join_cmd host interface quiet]"
    using legacy by (simp add: cluster_join_def ha_cluster_join_def retcode_def warn_then_def)
  show "cluster_join s host watchdog interface quiet = cluster_join s host watchdog' interface quiet"
    using legacy by (simp add: cluster_join_def)
  show "executable (ha_cluster_join_cmd host interface quiet) = HA_JOIN_COMMAND"
    by (rule executable_ha_cluster_join_cmd)
  show "tokens (ha_cluster_join_cmd host interface quiet) =
          [''/usr/sbin/ha-cluster-join'', ''-y'', ''-c''] @ tokens (py_str host)
            @ arg_tokens ''-i'' interface @ flag_tokens ''-q'' quiet"
    by (rule tokens_ha_cluster_join_cmd)
next
  assume new: "crmsh_version s"
  show "cluster_join s host watchdog interface quiet =
        retcode s (crm_join_cmd host watchdog interface quiet)"
    using new by (simp add: cluster_join_def crm_join_def)
  show "executable (crm_join_cmd host watchdog interface quiet) = CRM_COMMAND"
    by (rule executable_crm_join_cmd)
  show "tokens (crm_join_cmd host watchdog interface quiet) =
          [''/usr/sbin/crm'', ''cluster'', ''join'', ''-y'', ''-c''] @ tokens (py_str host)
            @ arg_tokens ''-w'' watchdog @ arg_tokens ''-i'' interface @ flag_tokens ''-q'' quiet"
    by (rule tokens_crm_join_cmd)
next
  assume "truthy watchdog"
  then show "prefix (CRM_COMMAND @ '' cluster join -y -c '' @ py_str host
                     @ '' -w '' @ py_str watchdog)
             (crm_join_cmd host watchdog interface quiet)"
    by (rule prefix_crm_join_cmd)
qed

text \<open>The call of the docstring with a watchdog, on both generations.\<close>

theorem cluster_join_dispatch_witness:
  "cluster_join ha_cluster_host (PStr ''192.168.1.41'') (PStr ''/dev/watchdog'') PNone PNone =
     (0, [Warn ''The parameter watchdog is not considered!'',
          Exec ''/usr/sbin/ha-cluster-join -y -c 192.168.1.41''])
   \<and> cluster_join crm_host (PStr ''192.168.1.41'') (PStr ''/dev/watchdog'') PNone PNone =
     (0, [Exec ''/usr/sbin/crm cluster join -y -c 192.168.1.41 -w /dev/watchdog''])
   \<and> truthy (PStr ''/dev/watchdog'')
   \<and> prefix ''/usr/sbin/crm cluster join -y -c 192.168.1.41 -w /dev/watchdog''
       (crm_join_cmd (PStr ''192.168.1.41'') (PStr ''/dev/watchdog'') (PStr ''eth0'') PNone)"
  using cluster_join_dispatch [of ha_cluster_host "PStr ''192.168.1.41''" "PStr ''/dev/watchdog''" PNone PNone PNone]
    cluster_join_dispatch [of crm_host "PStr ''192.168.1.41''" "PStr ''/dev/watchdog''" PNone PNone PNone]
    cluster_join_dispatch [of crm_host "PStr ''192.168.1.41''" "PStr ''/dev/watchdog''" "PStr ''eth0''" PNone PNone]
  by (simp add: retcode_def warn_then_def crm_host_def ha_cluster_host_def CRM_COMMAND_def
      HA_JOIN_COMMAND_def ha_cluster_join_cmd_def crm_join_cmd_def)

subsection \<open>\<^verbatim>\<open>wait_for_startup\<close>\<close>

text \<open>
  C5, as the spec states it: every call that supplies a timeout whose value is not an
  integer raises \<^verbatim>\<open>SaltInvocationError\<close> before any command is executed. The code
  checks the type only under the guard \<^verbatim>\<open>if timeout:\<close>, so a falsy value is never
  checked: \<^verbatim>\<open>wait_for_startup(timeout='')\<close> and \<^verbatim>\<open>wait_for_startup(timeout=0.0)\<close>
  raise nothing and execute the command without a timeout.
\<close>

theorem wait_for_startup_unchecked_timeout:
  "wait_for_startup crm_host (PStr '''') =
     (Inr 0, [Exec ''/usr/sbin/crm cluster wait_for_startup''])
   \<and> wait_for_startup crm_host (PObj False ''0.0'') =
     (Inr 0, [Exec ''/usr/sbin/crm cluster wait_for_startup''])"
  by (simp add: wait_for_startup_def retcode_def crm_host_def CRM_COMMAND_def)

text \<open>
  C5, amended. \<^verbatim>\<open>wait_for_startup(timeout=30)\<close> executes a command whose last token is
  \<^verbatim>\<open>30\<close>. Every call whose timeout is truthy and is neither an integer nor a boolean
  (a non-empty string, a non-zero float, a non-empty list) raises
  \<^verbatim>\<open>SaltInvocationError\<close>, and no command is executed. A non-zero integer is appended
  to the command in decimal. A falsy timeout of any type (\<^verbatim>\<open>None\<close>, \<^verbatim>\<open>0\<close>, \<^verbatim>\<open>False\<close>,
  \<^verbatim>\<open>''\<close>, \<^verbatim>\<open>0.0\<close>) is taken as no timeout: the command without a timeout is
  executed. Nothing is stated about the timeout \<^verbatim>\<open>True\<close>.
\<close>

theorem wait_for_startup_timeout:
  "wait_for_startup s (PInt 30) =
     (Inr (cmd_retcode s ''/usr/sbin/crm cluster wait_for_startup 30''),
      [Exec ''/usr/sbin/crm cluster wait_for_startup 30''])
   \<and> last (tokens ''/usr/sbin/crm cluster wait_for_startup 30'') = ''30''
   \<and> (truthy timeout \<and> \<not> isinstance_int timeout \<longrightarrow>
        wait_for_startup s timeout =
          (Inl (SaltInvocationError ''timeout must be integer type''), []))
   \<and> (i \<noteq> 0 \<longrightarrow>
        wait_for_startup s (PInt i) =
          (Inr (cmd_retcode s (CRM_COMMAND @ '' cluster wait_for_startup '' @ string_of_int i)),
           [Exec (CRM_COMMAND @ '' cluster wait_for_startup '' @ string_of_int i)]))
   \<and> (\<not> truthy timeout \<longrightarrow>
        wait_for_startup s timeout =
          (Inr (cmd_retcode s (CRM_COMMAND @ '' cluster wait_for_startup'')),
           [Exec (CRM_COMMAND @ '' cluster wait_for_startup'')]))"
proof (intro conjI impI)
  show "wait_for_startup s (PInt 30) =
     (Inr (cmd_retcode s ''/usr/sbin/crm cluster wait_for_startup 30''),
      [Exec ''/usr/sbin/crm cluster wait_for_startup 30''])"
    by (simp add: wait_for_startup_def retcode_def CRM_COMMAND_def string_of_int_def
        string_of_nat.simps digit_char_def)
  show "last (tokens ''/usr/sbin/crm cluster wait_for_startup 30'') = ''30''"
    by (simp add: tokens_def)
next
  assume "truthy timeout \<and> \<not> isinstance_int timeout"
  then show "wait_for_startup s timeout =
          (Inl (SaltInvocationError ''timeout must be integer type''), [])"
    by (simp add: wait_for_startup_def)
next
  assume "i \<noteq> 0"
  then show "wait_for_startup s (PInt i) =
          (Inr (cmd_retcode s (CRM_COMMAND @ '' cluster wait_for_startup '' @ string_of_int i)),
           [Exec (CRM_COMMAND @ '' cluster wait_for_startup '' @ string_of_int i)])"
    by (simp add: wait_for_startup_def retcode_def Let_def)
next
  assume "\<not> truthy timeout"
  then show "wait_for_startup s timeout =
          (Inr (cmd_retcode s (CRM_COMMAND @ '' cluster wait_for_startup'')),
           [Exec (CRM_COMMAND @ '' cluster wait_for_startup'')])"
    by (simp add: wait_for_startup_def retcode_def Let_def)
qed

text \<open>The timeouts \<^verbatim>\<open>30\<close>, \<^verbatim>\<open>'x'\<close>, \<^verbatim>\<open>2.5\<close>, \<^verbatim>\<open>5\<close> and \<^verbatim>\<open>None\<close>.\<close>

theorem wait_for_startup_timeout_witness:
  "wait_for_startup crm_host (PInt 30) =
     (Inr 0, [Exec ''/usr/sbin/crm cluster wait_for_startup 30''])
   \<and> truthy (PStr ''x'') \<and> \<not> isinstance_int (PStr ''x'')
   \<and> wait_for_startup crm_host (PStr ''x'') =
       (Inl (SaltInvocationError ''timeout must be integer type''), [])
   \<and> truthy (PObj True ''2.5'') \<and> \<not> isinstance_int (PObj True ''2.5'')
   \<and> wait_for_startup crm_host (PObj True ''2.5'') =
       (Inl (SaltInvocationError ''timeout must be integer type''), [])
   \<and> (5::int) \<noteq> 0
   \<and> wait_for_startup crm_host (PInt 5) =
     (Inr 0, [Exec ''/usr/sbin/crm cluster wait_for_startup 5''])
   \<and> \<not> truthy PNone
   \<and> wait_for_startup crm_host PNone = (Inr 0, [Exec ''/usr/sbin/crm cluster wait_for_startup''])"
  using wait_for_startup_timeout [of crm_host "PStr ''x''" 5]
    wait_for_startup_timeout [of crm_host "PObj True ''2.5''" 5]
    wait_for_startup_timeout [of crm_host PNone 5]
  by (simp add: crm_host_def CRM_COMMAND_def string_of_int_def string_of_nat.simps digit_char_def)

text \<open>
  The type check misses one case. \<^verbatim>\<open>isinstance(True, int)\<close> holds, so the timeout
  \<^verbatim>\<open>True\<close> passes the check whose message is \<^verbatim>\<open>timeout must be integer type\<close> and
  the text \<^verbatim>\<open>True\<close> is handed to the cluster tool as the timeout.
\<close>

lemma wait_for_startup_True:
  "wait_for_startup crm_host (PBool True) =
     (Inr 0, [Exec ''/usr/sbin/crm cluster wait_for_startup True''])"
  by (simp add: wait_for_startup_def retcode_def crm_host_def CRM_COMMAND_def)

subsection \<open>\<^verbatim>\<open>sar_file_extracted\<close>\<close>

text \<open>
  C7. Outside test mode, when the extraction delegate raises
  \<^verbatim>\<open>CommandExecutionError\<close>, \<^verbatim>\<open>sar_file_extracted\<close> returns (it does not raise) the
  record with result \<^verbatim>\<open>False\<close>, the text of the error as comment and no entry in
  changes; the delegate was called once, with the four arguments passed through.
\<close>

theorem sar_file_extracted_failure:
  "\<not> opts_test h \<Longrightarrow>
   extract_sapcar_file h sapcar_exe sar_file output_dir options = Some (CommandExecutionError err) \<Longrightarrow>
   sar_file_extracted h name sapcar_exe sar_file output_dir options =
     (Inr \<lparr>ret_name = sar_file, ret_changes = Map.empty,
           ret_result = Some False, ret_comment = err\<rparr>,
      [Extract sapcar_exe sar_file output_dir options])"
  by (simp add: sar_file_extracted_def)

text \<open>The state of the module's docstring on a host where SAPCAR fails.\<close>

theorem sar_file_extracted_failure_witness:
  "\<not> opts_test failing_host
   \<and> extract_sapcar_file failing_host ''./SAPCAR.exe'' ''home/sapuser/saprouter.sar''
       (PStr ''home/sapuser/saprouter_inst'') PNone =
       Some (CommandExecutionError ''Error running SAPCAR command'')
   \<and> sar_file_extracted failing_host (PStr ''extract_sap_car_file'') ''./SAPCAR.exe''
       ''home/sapuser/saprouter.sar'' (PStr ''home/sapuser/saprouter_inst'') PNone =
     (Inr \<lparr>ret_name = ''home/sapuser/saprouter.sar'', ret_changes = Map.empty,
           ret_result = Some False, ret_comment = ''Error running SAPCAR command''\<rparr>,
      [Extract ''./SAPCAR.exe'' ''home/sapuser/saprouter.sar''
         (PStr ''home/sapuser/saprouter_inst'') PNone])"
  using sar_file_extracted_failure [of failing_host "''./SAPCAR.exe''" "''home/sapuser/saprouter.sar''"
      "PStr ''home/sapuser/saprouter_inst''" PNone "''Error running SAPCAR command''"
      "PStr ''extract_sap_car_file''"]
  by (simp add: failing_host_def)

text \<open>
  C8. Outside test mode, when the extraction delegate returns, \<^verbatim>\<open>sar_file_extracted\<close>
  returns the record with result \<^verbatim>\<open>True\<close>, the comment \<^verbatim>\<open><sar_file> file extracted\<close>
  and one change, \<^verbatim>\<open>output_dir\<close>: the output_dir of the call when one is given (a
  truthy value), else \<^verbatim>\<open>os.path.dirname(sar_file)\<close>, which for a file in a directory
  is that directory.
\<close>

theorem sar_file_extracted_success:
  "\<not> opts_test h \<Longrightarrow>
   extract_sapcar_file h sapcar_exe sar_file output_dir options = None \<Longrightarrow>
   sar_file_extracted h name sapcar_exe sar_file output_dir options =
     (Inr \<lparr>ret_name = sar_file,
           ret_changes = [''output_dir'' \<mapsto>
             (if truthy output_dir then output_dir else PStr (os_path_dirname sar_file))],
           ret_result = Some True, ret_comment = sar_file @ '' file extracted''\<rparr>,
      [Extract sapcar_exe sar_file output_dir options])
   \<and> (dir \<noteq> [] \<and> last dir \<noteq> CHR ''/'' \<and> CHR ''/'' \<notin> set file \<longrightarrow>
        os_path_dirname (dir @ ''/'' @ file) = dir)"
proof (intro conjI impI)
  assume "\<not> opts_test h"
    and "extract_sapcar_file h sapcar_exe sar_file output_dir options = None"
  then show "sar_file_extracted h name sapcar_exe sar_file output_dir options =
     (Inr \<lparr>ret_name = sar_file,
           ret_changes = [''output_dir'' \<mapsto>
             (if truthy output_dir then output_dir else PStr (os_path_dirname sar_file))],
           ret_result = Some True, ret_comment = sar_file @ '' file extracted''\<rparr>,
      [Extract sapcar_exe sar_file output_dir options])"
    by (simp add: sar_file_extracted_def)
next
  assume "dir \<noteq> [] \<and> last dir \<noteq> CHR ''/'' \<and> CHR ''/'' \<notin> set file"
  then show "os_path_dirname (dir @ ''/'' @ file) = dir"
    by (intro os_path_dirname_join) simp_all
qed

text \<open>Without and with an output_dir.\<close>

theorem sar_file_extracted_success_witness:
  "\<not> opts_test extracting_host
   \<and> extract_sapcar_file extracting_host ''./SAPCAR.exe'' ''home/sapuser/saprouter.sar'' PNone PNone = None
   \<and> sar_file_extracted extracting_host (PStr ''extract_sap_car_file'') ''./SAPCAR.exe''
       ''home/sapuser/saprouter.sar'' PNone PNone =
     (Inr \<lparr>ret_name = ''home/sapuser/saprouter.sar'',
           ret_changes = [''output_dir'' \<mapsto> PStr ''home/sapuser''],
           ret_result = Some True, ret_comment = ''home/sapuser/saprouter.sar file extracted''\<rparr>,
      [Extract ''./SAPCAR.exe'' ''home/sapuser/saprouter.sar'' PNone PNone])
   \<and> sar_file_extracted extracting_host (PStr ''extract_sap_car_file'') ''./SAPCAR.exe''
       ''home/sapuser/saprouter.sar'' (PStr ''home/sapuser/saprouter_inst'') PNone =
     (Inr \<lparr>ret_name = ''home/sapuser/saprouter.sar'',
           ret_changes = [''output_dir'' \<mapsto> PStr ''home/sapuser/saprouter_inst''],
           ret_result = Some True, ret_comment = ''home/sapuser/saprouter.sar file extracted''\<rparr>,
      [Extract ''./SAPCAR.exe'' ''home/sapuser/saprouter.sar''
         (PStr ''home/sapuser/saprouter_inst'') PNone])"
  using sar_file_extracted_success [of extracting_host "''./SAPCAR.exe''" "''home/sapuser/saprouter.sar''"
      PNone PNone "PStr ''extract_sap_car_file''" "''home/sapuser''" "''saprouter.sar''"]
    sar_file_extracted_success [of extracting_host "''./SAPCAR.exe''" "''home/sapuser/saprouter.sar''"
      "PStr ''home/sapuser/saprouter_inst''" PNone "PStr ''extract_sap_car_file''"
      "''home/sapuser''" "''saprouter.sar''"]
  by (simp add: extracting_host_def)

text \<open>
  C9. In test mode \<^verbatim>\<open>sar_file_extracted\<close> returns the record with result \<^verbatim>\<open>None\<close>,
  the comment \<^verbatim>\<open><sar_file> would be extracted\<close> and the output_dir of the call under
  \<^verbatim>\<open>changes['output_dir']\<close>; it has no event, so the delegate is not called, and the
  result does not depend on the delegate.
\<close>

theorem sar_file_extracted_dry_run:
  "opts_test h \<Longrightarrow>
   sar_file_extracted h name sapcar_exe sar_file output_dir options =
     (Inr \<lparr>ret_name = sar_file, ret_changes = [''output_dir'' \<mapsto> output_dir],
           ret_result = None, ret_comment = sar_file @ '' would be extracted''\<rparr>, [])
   \<and> sar_file_extracted (h\<lparr>extract_sapcar_file := delegate\<rparr>) name sapcar_exe sar_file
         output_dir options =
       sar_file_extracted h name sapcar_exe sar_file output_dir options"
  by (simp add: sar_file_extracted_def)

text \<open>Test mode on a host whose delegate would raise.\<close>

theorem sar_file_extracted_dry_run_witness:
  "opts_test test_host
   \<and> sar_file_extracted test_host (PStr ''extract_sap_car_file'') ''./SAPCAR.exe''
       ''home/sapuser/saprouter.sar'' (PStr ''home/sapuser/saprouter_inst'') PNone =
     (Inr \<lparr>ret_name = ''home/sapuser/saprouter.sar'',
           ret_changes = [''output_dir'' \<mapsto> PStr ''home/sapuser/saprouter_inst''],
           ret_result = None, ret_comment = ''home/sapuser/saprouter.sar would be extracted''\<rparr>, [])"
  using sar_file_extracted_dry_run [of test_host "PStr ''extract_sap_car_file''" "''./SAPCAR.exe''"
      "''home/sapuser/saprouter.sar''" "PStr ''home/sapuser/saprouter_inst''" PNone]
  by (simp add: test_host_def)

text \<open>
  C10. Whatever branch is taken, a record returned by \<^verbatim>\<open>sar_file_extracted\<close> has
  \<^verbatim>\<open>sar_file\<close> as its name, and the argument \<^verbatim>\<open>name\<close> has no effect on the call.
\<close>

theorem sar_file_extracted_name:
  "(fst (sar_file_extracted h name sapcar_exe sar_file output_dir options) = Inr r
      \<longrightarrow> ret_name r = sar_file)
   \<and> sar_file_extracted h name sapcar_exe sar_file output_dir options =
       sar_file_extracted h name' sapcar_exe sar_file output_dir options"
  by (auto simp add: sar_file_extracted_def Let_def split: option.splits error.splits if_splits)

text \<open>The dry run and the failure return \<^verbatim>\<open>sar_file\<close> as name; the success is the
  same under another \<^verbatim>\<open>name\<close>.\<close>

theorem sar_file_extracted_name_witness:
  "fst (sar_file_extracted test_host (PStr ''extract_sap_car_file'') ''./SAPCAR.exe''
          ''home/sapuser/saprouter.sar'' PNone PNone) =
     Inr \<lparr>ret_name = ''home/sapuser/saprouter.sar'', ret_changes = [''output_dir'' \<mapsto> PNone],
           ret_result = None, ret_comment = ''home/sapuser/saprouter.sar would be extracted''\<rparr>
   \<and> ret_name \<lparr>ret_name = ''home/sapuser/saprouter.sar'', ret_changes = [''output_dir'' \<mapsto> PNone],
           ret_result = None, ret_comment = ''home/sapuser/saprouter.sar would be extracted''\<rparr>
       = ''home/sapuser/saprouter.sar''
   \<and> fst (sar_file_extracted failing_host (PStr ''extract_sap_car_file'') ''./SAPCAR.exe''
          ''home/sapuser/saprouter.sar'' PNone PNone) =
     Inr \<lparr>ret_name = ''home/sapuser/saprouter.sar'', ret_changes = Map.empty,
           ret_result = Some False, ret_comment = ''Error running SAPCAR command''\<rparr>
   \<and> sar_file_extracted extracting_host (PStr ''extract_sap_car_file'') ''./SAPCAR.exe''
          ''home/sapuser/saprouter.sar'' PNone PNone =
      sar_file_extracted extracting_host (PInt 7) ''./SAPCAR.exe''
          ''home/sapuser/saprouter.sar'' PNone PNone"
  using sar_file_extracted_name [of test_host "PStr ''extract_sap_car_file''" "''./SAPCAR.exe''"
      "''home/sapuser/saprouter.sar''" PNone PNone
      "\<lparr>ret_name = ''home/sapuser/saprouter.sar'', ret_changes = [''output_dir'' \<mapsto> PNone],
           ret_result = None, ret_comment = ''home/sapuser/saprouter.sar would be extracted''\<rparr>"
      "PInt 7"]
    sar_file_extracted_name [of failing_host "PStr ''extract_sap_car_file''" "''./SAPCAR.exe''"
      "''home/sapuser/saprouter.sar''" PNone PNone
      "\<lparr>ret_name = ''home/sapuser/saprouter.sar'', ret_changes = Map.empty,
           ret_result = Some False, ret_comment = ''Error running SAPCAR command''\<rparr>"
      "PInt 7"]
    sar_file_extracted_name [of extracting_host "PStr ''extract_sap_car_file''" "''./SAPCAR.exe''"
      "''home/sapuser/saprouter.sar''" PNone PNone _ "PInt 7"]
  by (simp add: sar_file_extracted_def test_host_def failing_host_def)

end
